theory Spec2Isabelle
  imports Main "HOL-Library.Char_ord" "HOL-Library.List_Lexorder"
begin

section \<open>Python strings\<close>

text \<open>
  A Python string is modelled as a \<open>string\<close> (a list of 8-bit characters), which covers
  the ASCII text of language tags and of an \<open>Accept-Language\<close> header.  Strings and
  lists of strings are compared as Python compares them: character by character by code
  point, a proper prefix being smaller (\<open>Char_ord\<close> and \<open>List_Lexorder\<close>).
\<close>

text \<open>\<open>s.replace('-', '_')\<close>\<close>

definition str_replace :: "char \<Rightarrow> char \<Rightarrow> string \<Rightarrow> string" where
  "str_replace a b s = map (\<lambda>c. if c = a then b else c) s"

text \<open>\<open>s.lower()\<close> and \<open>s.upper()\<close>: the ASCII letters change case, every other
  character stays.\<close>

definition chr_lower :: "char \<Rightarrow> char" where
  "chr_lower c = (if CHR ''A'' \<le> c \<and> c \<le> CHR ''Z'' then char_of (of_char c + (32::nat)) else c)"

definition chr_upper :: "char \<Rightarrow> char" where
  "chr_upper c = (if CHR ''a'' \<le> c \<and> c \<le> CHR ''z'' then char_of (of_char c - (32::nat)) else c)"

definition str_lower :: "string \<Rightarrow> string" where
  "str_lower s = map chr_lower s"

definition str_upper :: "string \<Rightarrow> string" where
  "str_upper s = map chr_upper s"

text \<open>\<open>s.split(sep)\<close> with a separator of one character: every occurrence splits, empty
  pieces are kept, and the result is never empty (\<open>''.split(',') == ['']\<close>), so the
  first branch of the \<open>case\<close> is never taken.\<close>

fun str_split :: "char \<Rightarrow> string \<Rightarrow> string list" where
  "str_split sep [] = [[]]"
| "str_split sep (c # cs) =
     (if c = sep then [] # str_split sep cs
      else (case str_split sep cs of
              [] \<Rightarrow> [[c]]
            | w # ws \<Rightarrow> (c # w) # ws))"

text \<open>\<open>sep.join(xs)\<close>\<close>

fun str_join :: "string \<Rightarrow> string list \<Rightarrow> string" where
  "str_join sep [] = []"
| "str_join sep [x] = x"
| "str_join sep (x # y # ys) = x @ sep @ str_join sep (y # ys)"

text \<open>\<open>s.strip()\<close>: the characters for which \<open>str.isspace\<close> holds (tab, line feed,
  vertical tab, form feed, carriage return, the separators 28 to 31, the space, and
  among the code points up to 255 also 133 and 160) are removed at both ends.\<close>

definition is_space :: "char \<Rightarrow> bool" where
  "is_space c = (of_char c \<in> {9, 10, 11, 12, 13, 28, 29, 30, 31, 32, 133, 160 :: nat})"

definition str_strip :: "string \<Rightarrow> string" where
  "str_strip s = rev (dropWhile is_space (rev (dropWhile is_space s)))"

text \<open>\<open>str(n)\<close> for an integer: the decimal digits, with a leading \<open>-\<close> for a negative
  number.\<close>

definition digit_char :: "nat \<Rightarrow> char" where
  "digit_char d = ''0123456789'' ! d"

function str_nat :: "nat \<Rightarrow> string" where
  "str_nat n = (if n < 10 then [digit_char n] else str_nat (n div 10) @ [digit_char (n mod 10)])"
  by pat_completeness auto
termination
  by (relation "measure (\<lambda>n. n)") auto

declare str_nat.simps [simp del]

definition str_int :: "int \<Rightarrow> string" where
  "str_int i = (if i < 0 then CHR ''-'' # str_nat (nat (- i)) else str_nat (nat i))"

section \<open>Plural bucket resolver\<close>

text \<open>
  The keys of a plural mapping are integers and strings; its values are strings.
  \<open>dic.get(k, d)\<close> is \<open>dict_get\<close>.
\<close>

datatype key = KInt int | KStr string

type_synonym plural_dict = "key \<rightharpoonup> string"

definition dict_get :: "('k \<rightharpoonup> 'v) \<Rightarrow> 'k \<Rightarrow> 'v \<Rightarrow> 'v" where
  "dict_get dic k d = (case dic k of None \<Rightarrow> d | Some v \<Rightarrow> v)"

definition number_literal_equiv :: "(key \<times> string) list" where
  "number_literal_equiv =
     [(KInt 0, ''zero''), (KStr ''0'', ''zero''),
      (KInt 1, ''one''), (KStr ''1'', ''one''),
      (KInt 2, ''few''), (KStr ''2'', ''few''),
      (KInt 3, ''few''), (KStr ''3'', ''few'')]"

definition number_to_literal :: "key \<Rightarrow> string" where
  "number_to_literal number = dict_get (map_of number_literal_equiv) number ''many''"

text \<open>\<open>pluralize(dic, count)\<close>; the count is \<open>None\<close> or an integer.\<close>

definition pluralize :: "plural_dict \<Rightarrow> int option \<Rightarrow> string" where
  "pluralize dic count0 =
     (let count = (case count0 of None \<Rightarrow> 0 | Some n \<Rightarrow> n);
          scount = str_int count;
          literal = number_to_literal (KStr scount)
      in dict_get dic (KInt count)
           (dict_get dic (KStr scount)
              (dict_get dic (KStr literal)
                 (dict_get dic (KStr ''many'')
                    (dict_get dic (KStr ''n'') '''')))))"

section \<open>Locale tags\<close>

text \<open>
  The values that reach the locale and timezone helpers: \<open>None\<close>, a string, a tuple of
  strings, a \<open>babel.Locale\<close> instance (its language and its optional territory) and a
  \<open>datetime.tzinfo\<close> instance (named by its zone).  The exceptions that the modelled
  code can raise are values of \<open>error\<close>.
\<close>

record babel_locale =
  language :: string
  territory :: "string option"

datatype pyval =
    PNone
  | PStr string
  | PTuple "string list"
  | PLocale babel_locale
  | PTzinfo string

datatype error = IndexError | TypeError

text \<open>Python's truth value of an object, as \<open>if not x\<close> and \<open>x or y\<close> test it.\<close>

fun truthy :: "pyval \<Rightarrow> bool" where
  "truthy PNone = False"
| "truthy (PStr s) = (s \<noteq> [])"
| "truthy (PTuple t) = (t \<noteq> [])"
| "truthy (PLocale l) = True"
| "truthy (PTzinfo z) = True"

text \<open>The string branch of \<open>split_locale\<close>: separators unified, all lower-cased, split at
  \<open>_\<close>, and the last of at least two segments upper-cased (\<open>tloc[-1] = tloc[-1].upper()\<close>).\<close>

definition split_locale_str :: "string \<Rightarrow> string list" where
  "split_locale_str s =
     (let loc = str_lower (str_replace CHR ''-'' CHR ''_'' s);
          tloc = str_split CHR ''_'' loc
      in if length tloc > 1
         then tloc[length tloc - 1 := str_upper (last tloc)]
         else tloc)"

fun split_locale :: "pyval \<Rightarrow> pyval" where
  "split_locale (PLocale l) =
     PTuple (str_lower (language l) #
             (case territory l of
                None \<Rightarrow> []
              | Some t \<Rightarrow> if t \<noteq> [] then [str_upper t] else []))"
| "split_locale (PStr s) = PTuple (split_locale_str s)"
| "split_locale v = v"

text \<open>\<open>'_'.join(split_locale(l))\<close> for a string \<open>l\<close>, as the three request readers
  write it.\<close>

definition join_split_locale :: "string \<Rightarrow> string" where
  "join_split_locale l = str_join ''_'' (split_locale_str l)"

text \<open>\<open>locale_to_str\<close>: joining what is not a tuple raises \<open>TypeError\<close>.\<close>

definition locale_to_str :: "pyval \<Rightarrow> error + string" where
  "locale_to_str loc =
     (case split_locale loc of
        PTuple t \<Rightarrow> Inr (str_join ''_'' t)
      | _ \<Rightarrow> Inl TypeError)"

text \<open>
  \<open>normalize_locale\<close>.  The constructor \<open>Locale(language, territory)\<close> of the locale
  database is a parameter \<open>mk\<close>; it yields \<open>None\<close> where Babel raises
  \<open>UnknownLocaleError\<close>, which the function catches.  Reading \<open>locale[0]\<close> of an empty
  tuple raises \<open>IndexError\<close>.
\<close>

definition normalize_locale ::
  "(string \<Rightarrow> string option \<Rightarrow> babel_locale option) \<Rightarrow> pyval \<Rightarrow> error + babel_locale option" where
  "normalize_locale mk loc =
     (if \<not> truthy loc then Inr None
      else case loc of
        PLocale l \<Rightarrow> Inr (Some l)
      | _ \<Rightarrow>
        (case split_locale loc of
           PTuple t \<Rightarrow>
             (case t of
                [] \<Rightarrow> Inl IndexError
              | [a] \<Rightarrow> Inr (mk (str_lower a) None)
              | a # b # _ \<Rightarrow> Inr (mk (str_lower a) (Some (str_upper b))))
         | _ \<Rightarrow> Inr None))"

text \<open>
  \<open>normalize_timezone\<close>.  Babel's \<open>get_timezone\<close> is a parameter; it yields \<open>None\<close> where
  it raises \<open>LookupError\<close>, which the function catches.
\<close>

definition normalize_timezone :: "(pyval \<Rightarrow> pyval option) \<Rightarrow> pyval \<Rightarrow> pyval" where
  "normalize_timezone get_timezone tz =
     (if \<not> truthy tz then PNone
      else case tz of
        PTzinfo z \<Rightarrow> tz
      | _ \<Rightarrow> (case get_timezone tz of None \<Rightarrow> PNone | Some r \<Rightarrow> r))"

section \<open>Request objects\<close>

text \<open>
  A request is an object with optional attributes; \<open>None\<close> in a field means that the
  object has no such attribute.  Of a framework's language accessor the code observes two
  things, its truth value (\<open>if languages:\<close>) and the tags it yields
  (\<open>languages.values()\<close> for werkzeug's \<open>accept_languages\<close>, iteration for webob's
  \<open>accept_language\<close>); an \<open>accessor\<close> holds both, since an object may be true and
  yield nothing.  An empty list is the accessor that is false and yields nothing.
  \<open>META\<close>, \<open>args\<close> and \<open>GET\<close> are dictionaries with string keys (association lists
  read with \<open>map_of\<close>).  The attribute \<open>locale\<close> is the field \<open>locale_attr\<close>.  Any
  further attribute of the object lives in the extension part of the record.
\<close>

datatype accessor = Accessor (acc_true: bool) (acc_values: "string list")

record request =
  accept_languages :: "accessor option"
  accept_language :: "accessor option"
  META :: "(string \<times> string) list option"
  tzinfo :: "pyval option"
  locale_attr :: "pyval option"
  args :: "(string \<times> pyval) list option"
  GET :: "(string \<times> pyval) list option"

section \<open>Header parser and negotiator\<close>

definition get_werkzeug_preferred_locales :: "'a request_scheme \<Rightarrow> string list option" where
  "get_werkzeug_preferred_locales req =
     (case accept_languages req of
        None \<Rightarrow> None
      | Some languages \<Rightarrow>
          if acc_true languages then Some (map join_split_locale (acc_values languages))
          else None)"

definition get_webob_preferred_locales :: "'a request_scheme \<Rightarrow> string list option" where
  "get_webob_preferred_locales req =
     (case accept_language req of
        None \<Rightarrow> None
      | Some languages \<Rightarrow>
          if acc_true languages then Some (map join_split_locale (acc_values languages))
          else None)"

text \<open>\<open>l[1]\<close> on a list: \<open>IndexError\<close> when the list has fewer than two items.\<close>

fun item1 :: "'a list \<Rightarrow> error + 'a" where
  "item1 (a # b # _) = Inr b"
| "item1 _ = Inl IndexError"

text \<open>The closing list comprehension of \<open>get_django_preferred_locales\<close>,
  \<open>['_'.join(split_locale(l[1].strip())) for l in languages]\<close>: it stops at the first
  item that raises.\<close>

fun django_tags :: "string list list \<Rightarrow> error + string list" where
  "django_tags [] = Inr []"
| "django_tags (l # ls) =
     (case item1 l of
        Inl e \<Rightarrow> Inl e
      | Inr t \<Rightarrow>
          (case django_tags ls of
             Inl e \<Rightarrow> Inl e
           | Inr ts \<Rightarrow> Inr (join_split_locale (str_strip t) # ts)))"

text \<open>The two statements that build and order \<open>languages\<close>: every comma-separated entry
  stripped, split at \<open>;\<close> and reversed; then \<open>sorted(languages)[::-1]\<close>.\<close>

definition django_languages :: "string \<Rightarrow> string list list" where
  "django_languages header =
     (let languages = map (\<lambda>l. rev (str_split CHR '';'' (str_strip l))) (str_split CHR '','' header)
      in rev (sort languages))"

definition get_django_preferred_locales :: "'a request_scheme \<Rightarrow> error + string list option" where
  "get_django_preferred_locales req =
     (case META req of
        None \<Rightarrow> Inr None
      | Some meta \<Rightarrow>
          if meta = [] then Inr None
          else (case map_of meta ''HTTP_ACCEPT_LANGUAGE'' of
                  None \<Rightarrow> Inr None
                | Some header \<Rightarrow>
                    if header = [] then Inr None
                    else (case django_tags (django_languages header) of
                            Inl e \<Rightarrow> Inl e
                          | Inr ts \<Rightarrow> Inr (Some ts))))"

text \<open>\<open>x or y\<close> on the readers' results: \<open>None\<close> and the empty list are false.\<close>

definition get_preferred_locales :: "'a request_scheme \<Rightarrow> error + string list" where
  "get_preferred_locales req =
     (case get_werkzeug_preferred_locales req of
        Some (x # xs) \<Rightarrow> Inr (x # xs)
      | _ \<Rightarrow>
        (case get_webob_preferred_locales req of
           Some (x # xs) \<Rightarrow> Inr (x # xs)
         | _ \<Rightarrow>
           (case get_django_preferred_locales req of
              Inl e \<Rightarrow> Inl e
            | Inr (Some (x # xs)) \<Rightarrow> Inr (x # xs)
            | Inr _ \<Rightarrow> Inr [])))"

text \<open>
  \<open>negotiate_locale\<close>.  Babel's \<open>Locale.negotiate(preferred, available, sep='_')\<close> is the
  parameter \<open>negotiate\<close>.
\<close>

definition negotiate_locale ::
  "(string list \<Rightarrow> string list \<Rightarrow> babel_locale option) \<Rightarrow> 'a request_scheme \<Rightarrow> string list
     \<Rightarrow> error + babel_locale option" where
  "negotiate_locale negotiate req available_locales =
     (if available_locales = [] then Inr None
      else (case get_preferred_locales req of
              Inl e \<Rightarrow> Inl e
            | Inr preferred \<Rightarrow>
                if preferred \<noteq> []
                then Inr (negotiate
                            (map (\<lambda>l. str_lower (str_replace CHR ''-'' CHR ''_'' l)) preferred)
                            (map (\<lambda>l. str_lower (str_replace CHR ''-'' CHR ''_'' l)) available_locales))
                else Inr None))"

section \<open>Request timezone and locale\<close>

text \<open>\<open>getattr(request, 'args', getattr(request, 'GET', {})).get(name)\<close>\<close>

definition request_arg :: "'a request_scheme \<Rightarrow> string \<Rightarrow> pyval" where
  "request_arg req name =
     (let d = (case args req of
                 Some a \<Rightarrow> a
               | None \<Rightarrow> (case GET req of Some g \<Rightarrow> g | None \<Rightarrow> []))
      in case map_of d name of None \<Rightarrow> PNone | Some v \<Rightarrow> v)"

text \<open>Both functions return the value they read back from the attribute they have just
  assigned, together with the request after the assignment.\<close>

definition get_request_timezone ::
  "(pyval \<Rightarrow> pyval option) \<Rightarrow> 'a request_scheme \<Rightarrow> pyval \<Rightarrow> pyval \<times> 'a request_scheme" where
  "get_request_timezone get_timezone req dflt =
     (let a = (case tzinfo req of None \<Rightarrow> PNone | Some v \<Rightarrow> v);
          tz = (if truthy a then a else request_arg req ''tzinfo'');
          n = normalize_timezone get_timezone tz;
          req' = req\<lparr>tzinfo := Some (if truthy n then n else dflt)\<rparr>
      in (case tzinfo req' of None \<Rightarrow> PNone | Some v \<Rightarrow> v, req'))"

definition get_request_locale ::
  "(string \<Rightarrow> string option \<Rightarrow> babel_locale option) \<Rightarrow> 'a request_scheme \<Rightarrow> pyval
     \<Rightarrow> error + pyval \<times> 'a request_scheme" where
  "get_request_locale mk req dflt =
     (let a = (case locale_attr req of None \<Rightarrow> PNone | Some v \<Rightarrow> v);
          loc = (if truthy a then a else request_arg req ''locale'')
      in case normalize_locale mk loc of
           Inl e \<Rightarrow> Inl e
         | Inr n \<Rightarrow>
             (let req' = req\<lparr>locale_attr := Some (case n of Some l \<Rightarrow> PLocale l | None \<Rightarrow> dflt)\<rparr>
              in Inr (case locale_attr req' of None \<Rightarrow> PNone | Some v \<Rightarrow> v, req')))"

section \<open>A request with nothing but an \<open>Accept-Language\<close> header\<close>

text \<open>The request that Django hands over when the client sends the given header: \<open>META\<close>
  holds it under \<open>HTTP_ACCEPT_LANGUAGE\<close>, and no other attribute is present.\<close>

definition django_request :: "string \<Rightarrow> request" where
  "django_request header =
     \<lparr>accept_languages = None, accept_language = None,
      META = Some [(''HTTP_ACCEPT_LANGUAGE'', header)],
      tzinfo = None, locale_attr = None, args = None, GET = None\<rparr>"

section \<open>Decimal strings\<close>

lemma lt10_cases: "(d::nat) < 10 \<Longrightarrow> d \<in> {0,1,2,3,4,5,6,7,8,9}"
  by auto

lemma digit_char_small:
  assumes "d < 10"
  shows "(digit_char d = CHR ''0'') = (d = 0)"
    and "(digit_char d = CHR ''1'') = (d = 1)"
    and "(digit_char d = CHR ''2'') = (d = 2)"
    and "(digit_char d = CHR ''3'') = (d = 3)"
  using lt10_cases [OF assms] by (auto simp: digit_char_def)

lemma str_nat_length: "10 \<le> n \<Longrightarrow> 2 \<le> length (str_nat n)"
  by (subst str_nat.simps, subst str_nat.simps) simp

lemma str_nat_not_Nil: "str_nat n \<noteq> []"
  by (subst str_nat.simps) simp

lemma str_nat_single: "(str_nat n = [c]) = (n < 10 \<and> digit_char n = c)"
proof (cases "n < 10")
  case True
  then show ?thesis by (simp add: str_nat.simps)
next
  case False
  then have "2 \<le> length (str_nat n)" by (simp add: str_nat_length)
  with False show ?thesis by auto
qed

lemma str_int_single: "(str_int i = [c]) = (0 \<le> i \<and> i < 10 \<and> digit_char (nat i) = c)"
  by (auto simp: str_int_def str_nat_single str_nat_not_Nil)

lemma str_int_bucket:
  "(str_int i = ''0'') = (i = 0)"
  "(str_int i = ''1'') = (i = 1)"
  "(str_int i = ''2'') = (i = 2)"
  "(str_int i = ''3'') = (i = 3)"
proof -
  have "0 \<le> i \<and> i < 10 \<Longrightarrow> nat i < 10" by linarith
  note d = digit_char_small [OF this]
  show "(str_int i = ''0'') = (i = 0)" using d(1) by (auto simp: str_int_single)
  show "(str_int i = ''1'') = (i = 1)" using d(2) by (auto simp: str_int_single)
  show "(str_int i = ''2'') = (i = 2)" using d(3) by (auto simp: str_int_single)
  show "(str_int i = ''3'') = (i = 3)" using d(4) by (auto simp: str_int_single)
qed

lemma number_to_literal_str_int:
  "number_to_literal (KStr (str_int c)) =
     (if c = 0 then ''zero'' else if c = 1 then ''one''
      else if c = 2 \<or> c = 3 then ''few'' else ''many'')"
  by (simp add: number_to_literal_def number_literal_equiv_def dict_get_def str_int_bucket)

lemma str_int_values:
  "str_int 0 = ''0''" "str_int 2 = ''2''" "str_int 3 = ''3''" "str_int 10 = ''10''"
  by (simp_all add: str_int_def str_nat.simps digit_char_def)

section \<open>Plural bucket resolver: the lookup\<close>

lemma pluralize_unfold:
  "pluralize dic (Some c) =
     dict_get dic (KInt c)
       (dict_get dic (KStr (str_int c))
          (dict_get dic (KStr (number_to_literal (KStr (str_int c))))
             (dict_get dic (KStr ''many'') (dict_get dic (KStr ''n'') ''''))))"
  by (simp add: pluralize_def Let_def)

lemma pluralize_None: "pluralize dic None = pluralize dic (Some 0)"
  by (simp add: pluralize_def)

text \<open>
  Claim C1, as stated, fails: it lists the catch-all key \<open>n\<close> right after the bucket
  category and says that a \<open>many\<close> key is not consulted for a count of another bucket.
  For the mapping \<open>{'many': '{count} apples'}\<close> and the count 0 (bucket \<open>zero\<close>), none
  of the count, its string form, the bucket name and \<open>n\<close> is a key, yet the result is the
  value stored under \<open>many\<close>, not the empty string.
\<close>

theorem pluralize_many_key_counterexample:
  "number_to_literal (KStr (str_int 0)) = ''zero''
   \<and> [KStr ''many'' \<mapsto> ''{count} apples''] (KInt 0) = None
   \<and> [KStr ''many'' \<mapsto> ''{count} apples''] (KStr (str_int 0)) = None
   \<and> [KStr ''many'' \<mapsto> ''{count} apples''] (KStr ''zero'') = None
   \<and> [KStr ''many'' \<mapsto> ''{count} apples''] (KStr ''n'') = None
   \<and> pluralize [KStr ''many'' \<mapsto> ''{count} apples''] (Some 0) = ''{count} apples''
   \<and> pluralize [KStr ''many'' \<mapsto> ''{count} apples''] (Some 0) \<noteq> ''''"
  by (simp add: pluralize_unfold dict_get_def number_to_literal_def number_literal_equiv_def
        str_int_values)

text \<open>
  Claim C1, amended: for every mapping and every count, \<open>pluralize\<close> tries, in this order
  and until one is present, (1) the count itself, (2) the string form of the count,
  (3) the bucket category name for the count, (4) the key \<open>many\<close>, (5) the catch-all key
  \<open>n\<close>, and otherwise returns the empty string; a count of \<open>None\<close> is looked up as 0.  No
  other key is consulted: two mappings that agree on these five keys give the same result.
\<close>

theorem pluralize_lookup_order:
  "pluralize dic (Some c) =
     (case dic (KInt c) of Some v \<Rightarrow> v | None \<Rightarrow>
      (case dic (KStr (str_int c)) of Some v \<Rightarrow> v | None \<Rightarrow>
      (case dic (KStr (if c = 0 then ''zero'' else if c = 1 then ''one''
                       else if c = 2 \<or> c = 3 then ''few'' else ''many'')) of Some v \<Rightarrow> v | None \<Rightarrow>
      (case dic (KStr ''many'') of Some v \<Rightarrow> v | None \<Rightarrow>
      (case dic (KStr ''n'') of Some v \<Rightarrow> v | None \<Rightarrow> '''')))))
   \<and> pluralize dic None = pluralize dic (Some 0)
   \<and> ((\<forall>k \<in> {KInt c, KStr (str_int c), KStr (number_to_literal (KStr (str_int c))),
               KStr ''many'', KStr ''n''}. dic k = dic' k)
        \<longrightarrow> pluralize dic (Some c) = pluralize dic' (Some c))"
proof (intro conjI impI)
  show "pluralize dic (Some c) =
     (case dic (KInt c) of Some v \<Rightarrow> v | None \<Rightarrow>
      (case dic (KStr (str_int c)) of Some v \<Rightarrow> v | None \<Rightarrow>
      (case dic (KStr (if c = 0 then ''zero'' else if c = 1 then ''one''
                       else if c = 2 \<or> c = 3 then ''few'' else ''many'')) of Some v \<Rightarrow> v | None \<Rightarrow>
      (case dic (KStr ''many'') of Some v \<Rightarrow> v | None \<Rightarrow>
      (case dic (KStr ''n'') of Some v \<Rightarrow> v | None \<Rightarrow> '''')))))"
    unfolding pluralize_unfold number_to_literal_str_int dict_get_def ..
  show "pluralize dic None = pluralize dic (Some 0)"
    by (rule pluralize_None)
next
  assume "\<forall>k \<in> {KInt c, KStr (str_int c), KStr (number_to_literal (KStr (str_int c))),
               KStr ''many'', KStr ''n''}. dic k = dic' k"
  then have "dic (KInt c) = dic' (KInt c)" "dic (KStr (str_int c)) = dic' (KStr (str_int c))"
    "dic (KStr (number_to_literal (KStr (str_int c)))) = dic' (KStr (number_to_literal (KStr (str_int c))))"
    "dic (KStr ''many'') = dic' (KStr ''many'')" "dic (KStr ''n'') = dic' (KStr ''n'')"
    by blast+
  then show "pluralize dic (Some c) = pluralize dic' (Some c)"
    unfolding pluralize_unfold dict_get_def by (simp split: option.splits)
qed

text \<open>
  Claim C1, amended, at a concrete input: a mapping and the same mapping with a further key
  \<open>other\<close> agree on the five keys consulted for the count 2, and both resolve to the value
  under \<open>n\<close>.
\<close>

theorem pluralize_lookup_order_witness:
  "[KStr ''n'' \<mapsto> ''{count} apples'', KStr ''other'' \<mapsto> ''x''] (KInt 2)
     = [KStr ''n'' \<mapsto> ''{count} apples''] (KInt 2)
   \<and> [KStr ''n'' \<mapsto> ''{count} apples'', KStr ''other'' \<mapsto> ''x''] (KStr (str_int 2))
     = [KStr ''n'' \<mapsto> ''{count} apples''] (KStr (str_int 2))
   \<and> [KStr ''n'' \<mapsto> ''{count} apples'', KStr ''other'' \<mapsto> ''x'']
         (KStr (number_to_literal (KStr (str_int 2))))
     = [KStr ''n'' \<mapsto> ''{count} apples''] (KStr (number_to_literal (KStr (str_int 2))))
   \<and> [KStr ''n'' \<mapsto> ''{count} apples'', KStr ''other'' \<mapsto> ''x''] (KStr ''many'')
     = [KStr ''n'' \<mapsto> ''{count} apples''] (KStr ''many'')
   \<and> [KStr ''n'' \<mapsto> ''{count} apples'', KStr ''other'' \<mapsto> ''x''] (KStr ''n'')
     = [KStr ''n'' \<mapsto> ''{count} apples''] (KStr ''n'')
   \<and> pluralize [KStr ''n'' \<mapsto> ''{count} apples'', KStr ''other'' \<mapsto> ''x''] (Some 2)
       = ''{count} apples''
   \<and> pluralize [KStr ''n'' \<mapsto> ''{count} apples''] (Some 2) = ''{count} apples''"
proof -
  have h: "\<forall>k \<in> {KInt 2, KStr (str_int 2), KStr (number_to_literal (KStr (str_int 2))),
             KStr ''many'', KStr ''n''}.
        [KStr ''n'' \<mapsto> ''{count} apples'', KStr ''other'' \<mapsto> ''x''] k
          = [KStr ''n'' \<mapsto> ''{count} apples''] k"
    by (simp add: str_int_values number_to_literal_def number_literal_equiv_def dict_get_def)
  have e: "pluralize [KStr ''n'' \<mapsto> ''{count} apples'', KStr ''other'' \<mapsto> ''x''] (Some 2)
       = ''{count} apples''"
    using pluralize_lookup_order
          [of "[KStr ''n'' \<mapsto> ''{count} apples'', KStr ''other'' \<mapsto> ''x'']" 2]
    by (simp add: str_int_values)
  have "pluralize [KStr ''n'' \<mapsto> ''{count} apples'', KStr ''other'' \<mapsto> ''x''] (Some 2)
          = pluralize [KStr ''n'' \<mapsto> ''{count} apples''] (Some 2)"
    using h pluralize_lookup_order
          [of "[KStr ''n'' \<mapsto> ''{count} apples'', KStr ''other'' \<mapsto> ''x'']" 2
              "[KStr ''n'' \<mapsto> ''{count} apples'']"]
    by blast
  with h e show ?thesis by simp
qed

text \<open>
  Claim C6: for a count with no exact integer key and no exact string key in the mapping,
  \<open>pluralize\<close> goes on with the bucket category chosen by the fixed rule: \<open>zero\<close> for 0,
  \<open>one\<close> for 1, \<open>few\<close> for 2 and for 3, and \<open>many\<close> for every other integer, the negative
  ones included; a count of \<open>None\<close> is treated as 0.  (What follows the bucket key is the
  remainder of the lookup: \<open>many\<close>, \<open>n\<close>, the empty string.)
\<close>

theorem pluralize_bucket_rule:
  assumes "c = (case count of None \<Rightarrow> 0 | Some n \<Rightarrow> n)"
    and "dic (KInt c) = None" and "dic (KStr (str_int c)) = None"
  shows "pluralize dic count =
           dict_get dic
             (KStr (if c = 0 then ''zero'' else if c = 1 then ''one''
                    else if c = 2 \<or> c = 3 then ''few'' else ''many''))
             (dict_get dic (KStr ''many'') (dict_get dic (KStr ''n'') ''''))"
proof -
  have "pluralize dic count = pluralize dic (Some c)"
    using assms(1) by (cases count) (simp_all add: pluralize_None)
  then show ?thesis
    using assms(2,3) unfolding pluralize_unfold number_to_literal_str_int
    by (simp add: dict_get_def)
qed

text \<open>
  Claim C6 at a concrete input: with the keys \<open>one\<close>, \<open>few\<close> and \<open>many\<close>, the count 3 has
  neither an integer nor a string key and resolves through its bucket \<open>few\<close>.
\<close>

theorem pluralize_bucket_rule_witness:
  "pluralize [KStr ''one'' \<mapsto> ''One apple'', KStr ''few'' \<mapsto> ''Few apples'',
              KStr ''many'' \<mapsto> ''{count} apples''] (Some 3) = ''Few apples''"
  using pluralize_bucket_rule
          [of 3 "Some 3" "[KStr ''one'' \<mapsto> ''One apple'', KStr ''few'' \<mapsto> ''Few apples'',
              KStr ''many'' \<mapsto> ''{count} apples'']"]
  by (simp add: str_int_values dict_get_def)

section \<open>The raw header reader on entries without a quality suffix\<close>

text \<open>
  Claim C2 does not hold of the code.  On the header \<open>fr;q=0.5,en;q=0.9,de\<close> the entry
  \<open>de\<close> has no \<open>;\<close>, its reversed split is the one-item list \<open>['de']\<close>, and reading
  \<open>l[1]\<close> of it raises \<open>IndexError\<close>: the reader returns no list at all, where the claim
  expects \<open>['de', 'en', 'fr']\<close>.
\<close>

theorem django_header_example_raises:
  "django_languages ''fr;q=0.5,en;q=0.9,de'' = [[''q=0.9'', ''en''], [''q=0.5'', ''fr''], [''de'']]
   \<and> get_django_preferred_locales (django_request ''fr;q=0.5,en;q=0.9,de'') = Inl IndexError"
  by code_simp

text \<open>
  Claim C3 does not hold of the code.  The header \<open>en,fr\<close> is a comma-separated header
  string, and the raw header reader raises \<open>IndexError\<close> on it, as does the extraction
  chain that ends in this reader.
\<close>

theorem django_plain_tags_raise:
  "get_django_preferred_locales (django_request ''en,fr'') = Inl IndexError
   \<and> get_preferred_locales (django_request ''en,fr'') = Inl IndexError"
  by code_simp

section \<open>Negotiation without candidates\<close>

text \<open>
  Claim C7: for every request and whatever its preference data, \<open>negotiate_locale\<close> with
  an empty candidate set returns \<open>None\<close>.  The request is not read: the result is the
  same normal return for the requests on which reading the preferences raises.
\<close>

theorem negotiate_locale_no_candidates:
  "negotiate_locale negotiate req [] = Inr None"
  by (simp add: negotiate_locale_def)

section \<open>The assignment to the request\<close>

lemma str_split_not_Nil: "str_split c s \<noteq> []"
  by (cases s) (auto split: list.splits)

lemma normalize_locale_returns: "\<exists>n. normalize_locale mk loc = Inr n"
proof (cases loc)
  case (PStr s)
  have "split_locale_str s \<noteq> []"
    by (simp add: split_locale_str_def Let_def str_split_not_Nil)
  then show ?thesis using PStr
    by (auto simp: normalize_locale_def split: list.splits)
qed (auto simp: normalize_locale_def split: list.splits)

text \<open>
  Claim C9: \<open>get_request_timezone\<close> and \<open>get_request_locale\<close> return normally, and the
  request they leave behind is the given one with the attribute \<open>tzinfo\<close> (respectively
  \<open>locale\<close>) assigned: every other attribute, the ones of the extension part included,
  is unchanged.  The value returned is the value stored, and it is the normalized found
  value, or the caller's default when normalization yields nothing.
\<close>

theorem get_request_assigns_once:
  "(\<exists>v r. get_request_timezone get_timezone req dflt = (v, r)
      \<and> r = req\<lparr>tzinfo := Some v\<rparr>
      \<and> tzinfo r = Some v
      \<and> accept_languages r = accept_languages req \<and> accept_language r = accept_language req
      \<and> META r = META req \<and> locale_attr r = locale_attr req
      \<and> args r = args req \<and> GET r = GET req \<and> request.more r = request.more req
      \<and> v = (let a = (case tzinfo req of None \<Rightarrow> PNone | Some x \<Rightarrow> x);
                  n = normalize_timezone get_timezone
                        (if truthy a then a else request_arg req ''tzinfo'')
              in if truthy n then n else dflt))
   \<and> (\<exists>v r n. get_request_locale mk req dflt' = Inr (v, r)
      \<and> r = req\<lparr>locale_attr := Some v\<rparr>
      \<and> locale_attr r = Some v
      \<and> accept_languages r = accept_languages req \<and> accept_language r = accept_language req
      \<and> META r = META req \<and> tzinfo r = tzinfo req
      \<and> args r = args req \<and> GET r = GET req \<and> request.more r = request.more req
      \<and> normalize_locale mk
            (let a = (case locale_attr req of None \<Rightarrow> PNone | Some x \<Rightarrow> x)
             in if truthy a then a else request_arg req ''locale'') = Inr n
      \<and> v = (case n of Some l \<Rightarrow> PLocale l | None \<Rightarrow> dflt'))"
proof (intro conjI)
  show "\<exists>v r. get_request_timezone get_timezone req dflt = (v, r)
      \<and> r = req\<lparr>tzinfo := Some v\<rparr>
      \<and> tzinfo r = Some v
      \<and> accept_languages r = accept_languages req \<and> accept_language r = accept_language req
      \<and> META r = META req \<and> locale_attr r = locale_attr req
      \<and> args r = args req \<and> GET r = GET req \<and> request.more r = request.more req
      \<and> v = (let a = (case tzinfo req of None \<Rightarrow> PNone | Some x \<Rightarrow> x);
                  n = normalize_timezone get_timezone
                        (if truthy a then a else request_arg req ''tzinfo'')
              in if truthy n then n else dflt)"
    by (simp add: get_request_timezone_def Let_def)
next
  obtain n where n: "normalize_locale mk
      (let a = (case locale_attr req of None \<Rightarrow> PNone | Some x \<Rightarrow> x)
       in if truthy a then a else request_arg req ''locale'') = Inr n"
    using normalize_locale_returns by blast
  then have "get_request_locale mk req dflt' =
      Inr (case n of Some l \<Rightarrow> PLocale l | None \<Rightarrow> dflt',
           req\<lparr>locale_attr := Some (case n of Some l \<Rightarrow> PLocale l | None \<Rightarrow> dflt')\<rparr>)"
    by (simp add: get_request_locale_def Let_def)
  with n show "\<exists>v r n. get_request_locale mk req dflt' = Inr (v, r)
      \<and> r = req\<lparr>locale_attr := Some v\<rparr>
      \<and> locale_attr r = Some v
      \<and> accept_languages r = accept_languages req \<and> accept_language r = accept_language req
      \<and> META r = META req \<and> tzinfo r = tzinfo req
      \<and> args r = args req \<and> GET r = GET req \<and> request.more r = request.more req
      \<and> normalize_locale mk
            (let a = (case locale_attr req of None \<Rightarrow> PNone | Some x \<Rightarrow> x)
             in if truthy a then a else request_arg req ''locale'') = Inr n
      \<and> v = (case n of Some l \<Rightarrow> PLocale l | None \<Rightarrow> dflt')"
    by simp
qed

section \<open>The extraction chain on empty accessors\<close>

lemma get_preferred_locales_cong:
  assumes "get_werkzeug_preferred_locales r = get_werkzeug_preferred_locales r'"
    and "get_webob_preferred_locales r = get_webob_preferred_locales r'"
    and "get_django_preferred_locales r = get_django_preferred_locales r'"
  shows "get_preferred_locales r = get_preferred_locales r'"
  unfolding get_preferred_locales_def assms by (rule refl)

text \<open>
  An accessor that is present but empty gives the same result as an absent one, for
  every request: each reader returns \<open>None\<close> for both, so the chain goes on with the
  next reader, and with nothing left it ends in the empty list.
\<close>

lemma get_preferred_locales_falls_through:
  "get_preferred_locales (req\<lparr>accept_languages := Some (Accessor False [])\<rparr>)
     = get_preferred_locales (req\<lparr>accept_languages := None\<rparr>)"
  "get_preferred_locales (req\<lparr>accept_language := Some (Accessor False [])\<rparr>)
     = get_preferred_locales (req\<lparr>accept_language := None\<rparr>)"
  "get_preferred_locales (req\<lparr>META := Some []\<rparr>)
     = get_preferred_locales (req\<lparr>META := None\<rparr>)"
  by (rule get_preferred_locales_cong;
      simp add: get_werkzeug_preferred_locales_def get_webob_preferred_locales_def
        get_django_preferred_locales_def)+

lemma get_preferred_locales_nothing_left:
  "get_werkzeug_preferred_locales req = None \<Longrightarrow> get_webob_preferred_locales req = None \<Longrightarrow>
     get_django_preferred_locales req = Inr None \<Longrightarrow> get_preferred_locales req = Inr []"
  by (simp add: get_preferred_locales_def)

text \<open>
  Claim C10 does not hold of the code.  In this request werkzeug's and webob's accessors
  are present and empty and \<open>META\<close> holds the header \<open>en-US,en;q=0.9\<close>.  The two empty
  accessors are treated like absent ones and the chain falls through to the raw header
  reader; no reader yields a list, and the result is not the empty list but the
  \<open>IndexError\<close> that the raw header reader raises on the entry \<open>en-US\<close>, which has no
  \<open>;\<close>.
\<close>

theorem get_preferred_locales_empty_accessors_raise:
  "get_werkzeug_preferred_locales
      \<lparr>accept_languages = Some (Accessor False []), accept_language = Some (Accessor False []),
       META = Some [(''HTTP_ACCEPT_LANGUAGE'', ''en-US,en;q=0.9'')],
       tzinfo = None, locale_attr = None, args = None, GET = None\<rparr> = None
   \<and> get_webob_preferred_locales
      \<lparr>accept_languages = Some (Accessor False []), accept_language = Some (Accessor False []),
       META = Some [(''HTTP_ACCEPT_LANGUAGE'', ''en-US,en;q=0.9'')],
       tzinfo = None, locale_attr = None, args = None, GET = None\<rparr> = None
   \<and> django_languages ''en-US,en;q=0.9'' = [[''q=0.9'', ''en''], [''en-US'']]
   \<and> get_django_preferred_locales
      \<lparr>accept_languages = Some (Accessor False []), accept_language = Some (Accessor False []),
       META = Some [(''HTTP_ACCEPT_LANGUAGE'', ''en-US,en;q=0.9'')],
       tzinfo = None, locale_attr = None, args = None, GET = None\<rparr> = Inl IndexError
   \<and> get_preferred_locales
      \<lparr>accept_languages = Some (Accessor False []), accept_language = Some (Accessor False []),
       META = Some [(''HTTP_ACCEPT_LANGUAGE'', ''en-US,en;q=0.9'')],
       tzinfo = None, locale_attr = None, args = None, GET = None\<rparr> = Inl IndexError"
  by code_simp

section \<open>Canonical locale tags\<close>

lemma of_char_chr_lower:
  "(of_char (chr_lower c) :: nat) =
     (if 65 \<le> (of_char c :: nat) \<and> (of_char c :: nat) \<le> 90 then of_char c + 32 else of_char c)"
proof -
  have "(of_char c :: nat) < 256" by simp
  then show ?thesis
    by (simp add: chr_lower_def less_eq_char_def)
qed

lemma of_char_chr_upper:
  "(of_char (chr_upper c) :: nat) =
     (if 97 \<le> (of_char c :: nat) \<and> (of_char c :: nat) \<le> 122 then of_char c - 32 else of_char c)"
proof -
  have "(of_char c :: nat) < 256" by simp
  then have "(of_char c :: nat) - 32 < 256" by linarith
  then show ?thesis
    by (simp add: chr_upper_def less_eq_char_def)
qed

lemma char_eq_via_nat: "(c = d) = ((of_char c :: nat) = of_char d)"
  by simp

lemma chr_upper_lower: "chr_upper (chr_lower c) = chr_upper c"
  unfolding char_eq_via_nat [of "chr_upper (chr_lower c)"] of_char_chr_upper of_char_chr_lower
  by simp

lemma chr_lower_is_sep:
  "(chr_lower c = CHR ''-'') = (c = CHR ''-'')"
  "(chr_lower c = CHR ''_'') = (c = CHR ''_'')"
  "(CHR ''-'' = chr_lower c) = (c = CHR ''-'')"
  "(CHR ''_'' = chr_lower c) = (c = CHR ''_'')"
  unfolding char_eq_via_nat [of "chr_lower c"] char_eq_via_nat [of c]
    char_eq_via_nat [of _ "chr_lower c"] of_char_chr_lower
  by simp_all

lemma chr_lower_idem: "chr_lower (chr_lower c) = chr_lower c"
  unfolding char_eq_via_nat [of "chr_lower (chr_lower c)"] of_char_chr_lower
  by simp

lemma chr_upper_idem: "chr_upper (chr_upper c) = chr_upper c"
  unfolding char_eq_via_nat [of "chr_upper (chr_upper c)"] of_char_chr_upper
  by (simp, arith)

lemma str_upper_lower: "str_upper (str_lower s) = str_upper s"
  by (simp add: str_upper_def str_lower_def chr_upper_lower)

lemma str_lower_idem: "str_lower (str_lower s) = str_lower s"
  by (simp add: str_lower_def chr_lower_idem)

lemma str_upper_idem: "str_upper (str_upper s) = str_upper s"
  by (simp add: str_upper_def chr_upper_idem)

lemma sep_in_str_lower:
  "(CHR ''-'' \<in> set (str_lower s)) = (CHR ''-'' \<in> set s)"
  "(CHR ''_'' \<in> set (str_lower s)) = (CHR ''_'' \<in> set s)"
  by (induction s) (auto simp: str_lower_def chr_lower_is_sep)

lemma str_replace_absent: "a \<notin> set s \<Longrightarrow> str_replace a b s = s"
  by (induction s) (auto simp: str_replace_def)

lemma str_split_absent: "sep \<notin> set s \<Longrightarrow> str_split sep s = [s]"
  by (induction s) auto

lemma str_split_append:
  "sep \<notin> set a \<Longrightarrow> str_split sep (a @ sep # b) = a # str_split sep b"
  by (induction a) auto

text \<open>
  Claim C8: take a pair of a language and a region, neither containing a separator, and
  any string form of it: some casing \<open>s1\<close> of the language, one of the separators \<open>-\<close>
  and \<open>_\<close>, some casing \<open>s2\<close> of the region.  Splitting it gives the tuple of the
  lower-cased language and the upper-cased region, its string is the two joined by
  \<open>_\<close>, and normalizing it asks the locale database for exactly this pair: the same
  canonical tag for every form.
\<close>

theorem split_locale_canonical:
  assumes "CHR ''-'' \<notin> set lang" and "CHR ''_'' \<notin> set lang"
    and "CHR ''-'' \<notin> set region" and "CHR ''_'' \<notin> set region"
    and "str_lower s1 = str_lower lang" and "str_lower s2 = str_lower region"
    and "sep = CHR ''-'' \<or> sep = CHR ''_''"
  shows "split_locale (PStr (s1 @ sep # s2)) = PTuple [str_lower lang, str_upper region]
       \<and> locale_to_str (PStr (s1 @ sep # s2)) = Inr (str_lower lang @ ''_'' @ str_upper region)
       \<and> normalize_locale mk (PStr (s1 @ sep # s2))
           = Inr (mk (str_lower lang) (Some (str_upper region)))"
proof -
  have s1: "CHR ''-'' \<notin> set s1"
    using assms(1,5) sep_in_str_lower(1) [of s1] sep_in_str_lower(1) [of lang] by simp
  have s2: "CHR ''-'' \<notin> set s2"
    using assms(3,6) sep_in_str_lower(1) [of s2] sep_in_str_lower(1) [of region] by simp
  have l1: "CHR ''_'' \<notin> set (str_lower lang)"
    using assms(2) by (simp add: sep_in_str_lower)
  have l2: "CHR ''_'' \<notin> set (str_lower region)"
    using assms(4) by (simp add: sep_in_str_lower)
  have "str_replace CHR ''-'' CHR ''_'' (s1 @ sep # s2)
          = str_replace CHR ''-'' CHR ''_'' s1 @ CHR ''_'' # str_replace CHR ''-'' CHR ''_'' s2"
    using assms(7) by (auto simp: str_replace_def)
  then have "str_replace CHR ''-'' CHR ''_'' (s1 @ sep # s2) = s1 @ CHR ''_'' # s2"
    by (simp add: str_replace_absent s1 s2)
  then have "str_lower (str_replace CHR ''-'' CHR ''_'' (s1 @ sep # s2))
               = str_lower lang @ CHR ''_'' # str_lower region"
    using assms(5,6) by (simp add: str_lower_def chr_lower_def)
  then have "str_split CHR ''_'' (str_lower (str_replace CHR ''-'' CHR ''_'' (s1 @ sep # s2)))
               = [str_lower lang, str_lower region]"
    by (simp add: str_split_append [OF l1] str_split_absent [OF l2])
  then have "split_locale_str (s1 @ sep # s2) = [str_lower lang, str_upper region]"
    by (simp add: split_locale_str_def str_upper_lower)
  then show ?thesis
    by (simp add: locale_to_str_def normalize_locale_def str_lower_idem str_upper_idem)
qed

text \<open>
  Claim C8 at concrete inputs: \<open>EN-us\<close> and \<open>en_US\<close> are forms of the pair
  \<open>(en, US)\<close>; both split to \<open>('en', 'US')\<close> and normalize to the locale of \<open>en\<close> and
  \<open>US\<close> (with a database that knows every pair).
\<close>

theorem split_locale_canonical_witness:
  "CHR ''-'' \<notin> set ''en'' \<and> CHR ''_'' \<notin> set ''en''
   \<and> CHR ''-'' \<notin> set ''US'' \<and> CHR ''_'' \<notin> set ''US''
   \<and> str_lower ''EN'' = str_lower ''en'' \<and> str_lower ''us'' = str_lower ''US''
   \<and> split_locale (PStr ''EN-us'') = PTuple [''en'', ''US'']
   \<and> split_locale (PStr ''en_US'') = PTuple [''en'', ''US'']
   \<and> locale_to_str (PStr ''EN-us'') = Inr ''en_US''
   \<and> normalize_locale (\<lambda>l t. Some \<lparr>language = l, territory = t\<rparr>) (PStr ''EN-us'')
       = Inr (Some \<lparr>language = ''en'', territory = Some ''US''\<rparr>)
   \<and> normalize_locale (\<lambda>l t. Some \<lparr>language = l, territory = t\<rparr>) (PStr ''en_US'')
       = Inr (Some \<lparr>language = ''en'', territory = Some ''US''\<rparr>)"
proof -
  have h: "CHR ''-'' \<notin> set ''en''" "CHR ''_'' \<notin> set ''en''"
    "CHR ''-'' \<notin> set ''US''" "CHR ''_'' \<notin> set ''US''"
    by simp_all
  have c: "str_lower ''EN'' = ''en''" "str_lower ''en'' = ''en''"
    "str_lower ''us'' = ''us''" "str_lower ''US'' = ''us''" "str_upper ''US'' = ''US''"
    by code_simp+
  have a: "split_locale (PStr (''EN'' @ CHR ''-'' # ''us'')) = PTuple [str_lower ''en'', str_upper ''US'']
       \<and> locale_to_str (PStr (''EN'' @ CHR ''-'' # ''us'')) = Inr (str_lower ''en'' @ ''_'' @ str_upper ''US'')
       \<and> normalize_locale (\<lambda>l t. Some \<lparr>language = l, territory = t\<rparr>) (PStr (''EN'' @ CHR ''-'' # ''us''))
           = Inr ((\<lambda>l t. Some \<lparr>language = l, territory = t\<rparr>) (str_lower ''en'') (Some (str_upper ''US'')))"
    by (rule split_locale_canonical [OF h]) (simp_all add: c)
  have b: "split_locale (PStr (''en'' @ CHR ''_'' # ''US'')) = PTuple [str_lower ''en'', str_upper ''US'']
       \<and> locale_to_str (PStr (''en'' @ CHR ''_'' # ''US'')) = Inr (str_lower ''en'' @ ''_'' @ str_upper ''US'')
       \<and> normalize_locale (\<lambda>l t. Some \<lparr>language = l, territory = t\<rparr>) (PStr (''en'' @ CHR ''_'' # ''US''))
           = Inr ((\<lambda>l t. Some \<lparr>language = l, territory = t\<rparr>) (str_lower ''en'') (Some (str_upper ''US'')))"
    by (rule split_locale_canonical [OF h]) (simp_all add: c)
  from a b h show ?thesis by (simp add: c)
qed

section \<open>The raw header reader: when it returns, and in what order\<close>

lemma item1_nth: "2 \<le> length l \<Longrightarrow> item1 l = Inr (l ! 1)"
  by (cases l rule: item1.cases) simp_all

lemma django_tags_returns:
  "(\<And>l. l \<in> set ls \<Longrightarrow> 2 \<le> length l) \<Longrightarrow>
     django_tags ls = Inr (map (\<lambda>l. join_split_locale (str_strip (l ! 1))) ls)"
  by (induction ls) (simp_all add: item1_nth)

lemma count_list_dropWhile: "\<not> P x \<Longrightarrow> count_list (dropWhile P xs) x = count_list xs x"
  by (induction xs) auto

lemma count_semicolon_strip: "count_list (str_strip e) CHR '';'' = count_list e CHR '';''"
proof -
  have "\<not> is_space CHR '';''" by (simp add: is_space_def)
  then show ?thesis by (simp add: str_strip_def count_list_dropWhile)
qed

lemma str_split_absent_count: "count_list s sep = 0 \<Longrightarrow> str_split sep s = [s]"
  by (induction s) (auto split: if_splits)

lemma str_split_once:
  "count_list s sep = 1 \<Longrightarrow>
     str_split sep s = [takeWhile (\<lambda>c. c \<noteq> sep) s, tl (dropWhile (\<lambda>c. c \<noteq> sep) s)]"
  by (induction s) (auto simp: str_split_absent_count split: if_splits)

lemma entry_fields:
  assumes "count_list e CHR '';'' = 1"
  shows "rev (str_split CHR '';'' (str_strip e)) =
           [tl (dropWhile (\<lambda>c. c \<noteq> CHR '';'') (str_strip e)),
            takeWhile (\<lambda>c. c \<noteq> CHR '';'') (str_strip e)]"
  using assms by (simp add: str_split_once count_semicolon_strip)

lemma django_languages_fields:
  assumes "\<And>e. e \<in> set (str_split CHR '','' header) \<Longrightarrow> count_list e CHR '';'' = 1"
  shows "django_languages header =
           rev (sort (map (\<lambda>e. [tl (dropWhile (\<lambda>c. c \<noteq> CHR '';'') (str_strip e)),
                                 takeWhile (\<lambda>c. c \<noteq> CHR '';'') (str_strip e)])
                           (str_split CHR '','' header)))"
proof -
  have "map (\<lambda>l. rev (str_split CHR '';'' (str_strip l))) (str_split CHR '','' header) =
        map (\<lambda>e. [tl (dropWhile (\<lambda>c. c \<noteq> CHR '';'') (str_strip e)),
                   takeWhile (\<lambda>c. c \<noteq> CHR '';'') (str_strip e)])
            (str_split CHR '','' header)"
    by (rule map_cong [OF refl]) (simp add: entry_fields assms)
  then show ?thesis
    unfolding django_languages_def Let_def by (simp only:)
qed

lemma django_languages_descending:
  "i \<le> j \<Longrightarrow> j < length (django_languages header) \<Longrightarrow>
     django_languages header ! j \<le> django_languages header ! i"
  by (rule sorted_rev_nth_mono) (simp_all add: django_languages_def)

lemma django_returns:
  assumes "META req = Some meta" and "map_of meta ''HTTP_ACCEPT_LANGUAGE'' = Some header"
    and "header \<noteq> []"
    and "\<And>e. e \<in> set (str_split CHR '','' header) \<Longrightarrow> count_list e CHR '';'' = 1"
  shows "get_django_preferred_locales req =
           Inr (Some (map (\<lambda>l. join_split_locale (str_strip (l ! 1))) (django_languages header)))"
proof -
  have "2 \<le> length l" if "l \<in> set (django_languages header)" for l
  proof -
    from that obtain e where "e \<in> set (str_split CHR '','' header)"
      and "l = rev (str_split CHR '';'' (str_strip e))"
      by (auto simp: django_languages_def)
    then show ?thesis
      by (simp add: entry_fields assms(4))
  qed
  then have "django_tags (django_languages header) =
      Inr (map (\<lambda>l. join_split_locale (str_strip (l ! 1))) (django_languages header))"
    by (rule django_tags_returns)
  moreover have "meta \<noteq> []"
    using assms(2) by auto
  ultimately show ?thesis
    using assms(1,2,3) by (simp add: get_django_preferred_locales_def)
qed

lemma map_insort_key: "map f (insort_key f x xs) = insort (f x) (map f xs)"
  by (induction xs) simp_all

lemma map_sort_key: "map f (sort_key f xs) = sort (map f xs)"
  by (induction xs) (simp_all add: map_insort_key)

lemma django_returns_tags:
  assumes "META req = Some meta" and "map_of meta ''HTTP_ACCEPT_LANGUAGE'' = Some header"
    and "header \<noteq> []"
    and "\<And>e. e \<in> set (str_split CHR '','' header) \<Longrightarrow> count_list e CHR '';'' = 1"
  shows "get_django_preferred_locales req =
           Inr (Some (map (\<lambda>e. join_split_locale
                                  (str_strip (takeWhile (\<lambda>c. c \<noteq> CHR '';'') (str_strip e))))
                        (rev (sort_key (\<lambda>e. [tl (dropWhile (\<lambda>c. c \<noteq> CHR '';'') (str_strip e)),
                                                takeWhile (\<lambda>c. c \<noteq> CHR '';'') (str_strip e)])
                                       (str_split CHR '','' header)))))"
proof -
  have "map (\<lambda>l. join_split_locale (str_strip (l ! 1))) (django_languages header) =
        map (\<lambda>l. join_split_locale (str_strip (l ! 1)))
          (map (\<lambda>e. [tl (dropWhile (\<lambda>c. c \<noteq> CHR '';'') (str_strip e)),
                      takeWhile (\<lambda>c. c \<noteq> CHR '';'') (str_strip e)])
               (rev (sort_key (\<lambda>e. [tl (dropWhile (\<lambda>c. c \<noteq> CHR '';'') (str_strip e)),
                                      takeWhile (\<lambda>c. c \<noteq> CHR '';'') (str_strip e)])
                              (str_split CHR '','' header))))"
    by (simp only: django_languages_fields [of header, OF assms(4)] map_sort_key [symmetric] rev_map)
  also have "\<dots> = map (\<lambda>e. join_split_locale
                                  (str_strip (takeWhile (\<lambda>c. c \<noteq> CHR '';'') (str_strip e))))
                        (rev (sort_key (\<lambda>e. [tl (dropWhile (\<lambda>c. c \<noteq> CHR '';'') (str_strip e)),
                                                takeWhile (\<lambda>c. c \<noteq> CHR '';'') (str_strip e)])
                                       (str_split CHR '','' header)))"
    by simp
  finally show ?thesis
    using django_returns [OF assms] by simp
qed

text \<open>
  Claim C4, as stated, fails: in the header \<open>a;q=0.5,b;q=0.5\<close> the two entries have the
  same quality and \<open>a\<close> comes first, yet the call returns \<open>b\<close> before \<open>a\<close>.
\<close>

theorem django_tie_counterexample:
  "get_django_preferred_locales (django_request ''a;q=0.5,b;q=0.5'') = Inr (Some [''b'', ''a''])"
  by code_simp

text \<open>
  Claim C4, amended: let the raw header be not empty and let each of its comma-separated
  entries have exactly one \<open>;\<close>, so that the stripped entry is a tag text, the \<open>;\<close> and
  a quality text.  Then \<open>languages\<close> holds one pair of quality text and tag text for each
  entry, in descending order of these pairs compared as text: by quality text first, and
  of two entries with the same quality text the one with the greater tag text comes first,
  whatever their order in the header.  The call returns, in that order, the tags alone
  (of each entry the text before its \<open>;\<close>, stripped and normalized); the quality texts
  are dropped.
\<close>

theorem django_order_by_quality_then_tag:
  assumes "META req = Some meta" and "map_of meta ''HTTP_ACCEPT_LANGUAGE'' = Some header"
    and "header \<noteq> []"
    and "\<forall>e \<in> set (str_split CHR '','' header). count_list e CHR '';'' = 1"
  shows "django_languages header =
           rev (sort (map (\<lambda>e. [tl (dropWhile (\<lambda>c. c \<noteq> CHR '';'') (str_strip e)),
                                 takeWhile (\<lambda>c. c \<noteq> CHR '';'') (str_strip e)])
                           (str_split CHR '','' header)))
       \<and> get_django_preferred_locales req =
           Inr (Some (map (\<lambda>e. join_split_locale
                                  (str_strip (takeWhile (\<lambda>c. c \<noteq> CHR '';'') (str_strip e))))
                        (rev (sort_key (\<lambda>e. [tl (dropWhile (\<lambda>c. c \<noteq> CHR '';'') (str_strip e)),
                                                takeWhile (\<lambda>c. c \<noteq> CHR '';'') (str_strip e)])
                                       (str_split CHR '','' header)))))
       \<and> (\<forall>i j q q' t u. i < j \<and> j < length (django_languages header)
             \<and> django_languages header ! i = [q, t]
             \<and> django_languages header ! j = [q', u] \<longrightarrow> q' \<le> q)
       \<and> (\<forall>i j q t u. i < j \<and> j < length (django_languages header)
             \<and> django_languages header ! i = [q, t]
             \<and> django_languages header ! j = [q, u] \<longrightarrow> u \<le> t)"
proof (intro conjI allI impI)
  show "django_languages header =
           rev (sort (map (\<lambda>e. [tl (dropWhile (\<lambda>c. c \<noteq> CHR '';'') (str_strip e)),
                                 takeWhile (\<lambda>c. c \<noteq> CHR '';'') (str_strip e)])
                           (str_split CHR '','' header)))"
    using assms(4) by (intro django_languages_fields) simp
  show "get_django_preferred_locales req =
           Inr (Some (map (\<lambda>e. join_split_locale
                                  (str_strip (takeWhile (\<lambda>c. c \<noteq> CHR '';'') (str_strip e))))
                        (rev (sort_key (\<lambda>e. [tl (dropWhile (\<lambda>c. c \<noteq> CHR '';'') (str_strip e)),
                                                takeWhile (\<lambda>c. c \<noteq> CHR '';'') (str_strip e)])
                                       (str_split CHR '','' header)))))"
    using assms by (intro django_returns_tags [of req meta header]) simp_all
next
  fix i j q q' t u
  assume a: "i < j \<and> j < length (django_languages header)
             \<and> django_languages header ! i = [q, t]
             \<and> django_languages header ! j = [q', u]"
  then have "django_languages header ! j \<le> django_languages header ! i"
    by (intro django_languages_descending) simp_all
  with a have "[q', u] \<le> [q, t]" by simp
  then show "q' \<le> q" by auto
next
  fix i j q t u
  assume a: "i < j \<and> j < length (django_languages header)
             \<and> django_languages header ! i = [q, t]
             \<and> django_languages header ! j = [q, u]"
  then have "django_languages header ! j \<le> django_languages header ! i"
    by (intro django_languages_descending) simp_all
  with a have "[q, u] \<le> [q, t]" by simp
  then show "u \<le> t" by auto
qed

text \<open>
  Claim C4, amended, at a concrete input: every entry of \<open>en;q=0.8,fr;q=0.8,de;q=0.9\<close>
  has exactly one \<open>;\<close>; \<open>de\<close> has the greatest quality text and comes first, and of the
  two entries with the quality text \<open>q=0.8\<close>, \<open>fr\<close> comes before \<open>en\<close>, against their
  order in the header.
\<close>

theorem django_order_by_quality_then_tag_witness:
  "str_split CHR '','' ''en;q=0.8,fr;q=0.8,de;q=0.9'' = [''en;q=0.8'', ''fr;q=0.8'', ''de;q=0.9'']
   \<and> count_list ''en;q=0.8'' CHR '';'' = 1 \<and> count_list ''fr;q=0.8'' CHR '';'' = 1
   \<and> count_list ''de;q=0.9'' CHR '';'' = 1
   \<and> django_languages ''en;q=0.8,fr;q=0.8,de;q=0.9''
       = [[''q=0.9'', ''de''], [''q=0.8'', ''fr''], [''q=0.8'', ''en'']]
   \<and> get_django_preferred_locales (django_request ''en;q=0.8,fr;q=0.8,de;q=0.9'')
       = Inr (Some [''de'', ''fr'', ''en''])"
proof -
  have s: "str_split CHR '','' ''en;q=0.8,fr;q=0.8,de;q=0.9''
             = [''en;q=0.8'', ''fr;q=0.8'', ''de;q=0.9'']"
    by code_simp
  have c: "count_list ''en;q=0.8'' CHR '';'' = 1" "count_list ''fr;q=0.8'' CHR '';'' = 1"
    "count_list ''de;q=0.9'' CHR '';'' = 1"
    by simp_all
  have l: "django_languages ''en;q=0.8,fr;q=0.8,de;q=0.9''
             = [[''q=0.9'', ''de''], [''q=0.8'', ''fr''], [''q=0.8'', ''en'']]"
    by code_simp
  have t: "map (\<lambda>e. join_split_locale
                        (str_strip (takeWhile (\<lambda>c. c \<noteq> CHR '';'') (str_strip e))))
              (rev (sort_key (\<lambda>e. [tl (dropWhile (\<lambda>c. c \<noteq> CHR '';'') (str_strip e)),
                                      takeWhile (\<lambda>c. c \<noteq> CHR '';'') (str_strip e)])
                             (str_split CHR '','' ''en;q=0.8,fr;q=0.8,de;q=0.9'')))
             = [''de'', ''fr'', ''en'']"
    by code_simp
  have h: "\<forall>e \<in> set (str_split CHR '','' ''en;q=0.8,fr;q=0.8,de;q=0.9'').
             count_list e CHR '';'' = 1"
    unfolding s using c by simp
  have "get_django_preferred_locales (django_request ''en;q=0.8,fr;q=0.8,de;q=0.9'') =
          Inr (Some (map (\<lambda>e. join_split_locale
                                 (str_strip (takeWhile (\<lambda>c. c \<noteq> CHR '';'') (str_strip e))))
                       (rev (sort_key (\<lambda>e. [tl (dropWhile (\<lambda>c. c \<noteq> CHR '';'') (str_strip e)),
                                               takeWhile (\<lambda>c. c \<noteq> CHR '';'') (str_strip e)])
                                      (str_split CHR '','' ''en;q=0.8,fr;q=0.8,de;q=0.9'')))))"
    using django_order_by_quality_then_tag
            [of "django_request ''en;q=0.8,fr;q=0.8,de;q=0.9''"
                "[(''HTTP_ACCEPT_LANGUAGE'', ''en;q=0.8,fr;q=0.8,de;q=0.9'')]"
                "''en;q=0.8,fr;q=0.8,de;q=0.9''", OF _ _ _ h]
    by (simp add: django_request_def)
  then have "get_django_preferred_locales (django_request ''en;q=0.8,fr;q=0.8,de;q=0.9'')
               = Inr (Some [''de'', ''fr'', ''en''])"
    unfolding t .
  with s c l show ?thesis by simp
qed

text \<open>
  Claim C5, as stated, fails in its second half.  After \<open>zz;q=1.0\<close> the entry
  \<open>en;q=bogus\<close> is returned first; with quality 1.0 in its place the same entry is
  returned second; and with no quality suffix at all the call raises.
\<close>

theorem django_bogus_quality_counterexample:
  "get_django_preferred_locales (django_request ''zz;q=1.0,en;q=bogus'') = Inr (Some [''en'', ''zz''])
   \<and> get_django_preferred_locales (django_request ''zz;q=1.0,en;q=1.0'') = Inr (Some [''zz'', ''en''])
   \<and> get_django_preferred_locales (django_request ''zz;q=1.0,en'') = Inl IndexError"
  by code_simp

text \<open>
  Claim C5, amended: a header entry with a malformed quality suffix does not cause an
  exception.  In a header that is not empty and whose entries each have exactly one \<open>;\<close>
  the text after the \<open>;\<close> is never parsed, whatever it is, and the call returns; the
  header \<open>en;q=bogus\<close> returns \<open>['en']\<close>.  The entry is ranked by that text, compared as
  text with the suffix texts of the other entries: it comes before every entry whose
  suffix text is smaller.  So an entry with the suffix \<open>q=bogus\<close> comes before every entry
  whose suffix is \<open>q=\<close> followed by a digit, \<open>q=1.0\<close> included, and is not level with
  quality 1.0; another malformed suffix ranks where its text falls, and the empty
  quality of \<open>en;q=\<close> comes after \<open>q=0.1\<close>.
\<close>

theorem django_malformed_quality_ranked_as_text:
  assumes "META req = Some meta" and "map_of meta ''HTTP_ACCEPT_LANGUAGE'' = Some header"
    and "header \<noteq> []"
    and "\<forall>e \<in> set (str_split CHR '','' header). count_list e CHR '';'' = 1"
  shows "get_django_preferred_locales (django_request ''en;q=bogus'') = Inr (Some [''en''])
       \<and> get_django_preferred_locales (django_request ''zz;q=0.1,en;q='') = Inr (Some [''zz'', ''en''])
       \<and> django_languages header =
           rev (sort (map (\<lambda>e. [tl (dropWhile (\<lambda>c. c \<noteq> CHR '';'') (str_strip e)),
                                 takeWhile (\<lambda>c. c \<noteq> CHR '';'') (str_strip e)])
                           (str_split CHR '','' header)))
       \<and> get_django_preferred_locales req =
           Inr (Some (map (\<lambda>e. join_split_locale
                                  (str_strip (takeWhile (\<lambda>c. c \<noteq> CHR '';'') (str_strip e))))
                        (rev (sort_key (\<lambda>e. [tl (dropWhile (\<lambda>c. c \<noteq> CHR '';'') (str_strip e)),
                                                takeWhile (\<lambda>c. c \<noteq> CHR '';'') (str_strip e)])
                                       (str_split CHR '','' header)))))
       \<and> (\<forall>i j q q' t u. i < length (django_languages header) \<and> j < length (django_languages header)
             \<and> django_languages header ! i = [q, t]
             \<and> django_languages header ! j = [q', u]
             \<and> q' < q \<longrightarrow> i < j)
       \<and> (\<forall>i j d r t u. i < length (django_languages header) \<and> j < length (django_languages header)
             \<and> django_languages header ! i = [''q=bogus'', t]
             \<and> django_languages header ! j = [''q='' @ d # r, u]
             \<and> CHR ''0'' \<le> d \<and> d \<le> CHR ''9'' \<longrightarrow> i < j)"
proof -
  have rank: "i < j"
    if "i < length (django_languages header)" "j < length (django_languages header)"
      "django_languages header ! i = [q, t]" "django_languages header ! j = [q', u]" "q' < q"
    for i j q q' t u
  proof (rule ccontr)
    assume "\<not> i < j"
    then have "j \<le> i" by simp
    with that(1) have "django_languages header ! i \<le> django_languages header ! j"
      by (intro django_languages_descending) simp_all
    then have "[q, t] \<le> [q', u]"
      using that(3,4) by simp
    with that(5) show False by auto
  qed
  show ?thesis
  proof (intro conjI allI impI)
    show "get_django_preferred_locales (django_request ''en;q=bogus'') = Inr (Some [''en''])"
      by code_simp
    show "get_django_preferred_locales (django_request ''zz;q=0.1,en;q='') = Inr (Some [''zz'', ''en''])"
      by code_simp
    show "django_languages header =
           rev (sort (map (\<lambda>e. [tl (dropWhile (\<lambda>c. c \<noteq> CHR '';'') (str_strip e)),
                                 takeWhile (\<lambda>c. c \<noteq> CHR '';'') (str_strip e)])
                           (str_split CHR '','' header)))"
      using assms(4) by (intro django_languages_fields) simp
    show "get_django_preferred_locales req =
           Inr (Some (map (\<lambda>e. join_split_locale
                                  (str_strip (takeWhile (\<lambda>c. c \<noteq> CHR '';'') (str_strip e))))
                        (rev (sort_key (\<lambda>e. [tl (dropWhile (\<lambda>c. c \<noteq> CHR '';'') (str_strip e)),
                                                takeWhile (\<lambda>c. c \<noteq> CHR '';'') (str_strip e)])
                                       (str_split CHR '','' header)))))"
      using assms by (intro django_returns_tags [of req meta header]) simp_all
  next
    fix i j q q' t u
    assume "i < length (django_languages header) \<and> j < length (django_languages header)
             \<and> django_languages header ! i = [q, t]
             \<and> django_languages header ! j = [q', u]
             \<and> q' < q"
    then show "i < j" using rank by blast
  next
    fix i j d r t u
    assume a: "i < length (django_languages header) \<and> j < length (django_languages header)
             \<and> django_languages header ! i = [''q=bogus'', t]
             \<and> django_languages header ! j = [''q='' @ d # r, u]
             \<and> CHR ''0'' \<le> d \<and> d \<le> CHR ''9''"
    then have "d < CHR ''b''"
      by (simp add: less_eq_char_def less_char_def)
    then have "''q='' @ d # r < ''q=bogus''"
      by simp
    with a show "i < j" using rank by blast
  qed
qed

text \<open>
  Claim C5, amended, at a concrete input: every entry of \<open>zz;q=1.0,en;q=bogus\<close> has
  exactly one \<open>;\<close>, and the entry with the suffix \<open>q=bogus\<close> is returned before the one
  with \<open>q=1.0\<close>.
\<close>

theorem django_malformed_quality_ranked_as_text_witness:
  "str_split CHR '','' ''zz;q=1.0,en;q=bogus'' = [''zz;q=1.0'', ''en;q=bogus'']
   \<and> count_list ''zz;q=1.0'' CHR '';'' = 1 \<and> count_list ''en;q=bogus'' CHR '';'' = 1
   \<and> django_languages ''zz;q=1.0,en;q=bogus'' = [[''q=bogus'', ''en''], [''q=1.0'', ''zz'']]
   \<and> get_django_preferred_locales (django_request ''zz;q=1.0,en;q=bogus'')
       = Inr (Some [''en'', ''zz''])"
proof -
  have s: "str_split CHR '','' ''zz;q=1.0,en;q=bogus'' = [''zz;q=1.0'', ''en;q=bogus'']"
    by code_simp
  have c: "count_list ''zz;q=1.0'' CHR '';'' = 1" "count_list ''en;q=bogus'' CHR '';'' = 1"
    by simp_all
  have l: "django_languages ''zz;q=1.0,en;q=bogus'' = [[''q=bogus'', ''en''], [''q=1.0'', ''zz'']]"
    by code_simp
  have t: "map (\<lambda>e. join_split_locale
                        (str_strip (takeWhile (\<lambda>c. c \<noteq> CHR '';'') (str_strip e))))
              (rev (sort_key (\<lambda>e. [tl (dropWhile (\<lambda>c. c \<noteq> CHR '';'') (str_strip e)),
                                      takeWhile (\<lambda>c. c \<noteq> CHR '';'') (str_strip e)])
                             (str_split CHR '','' ''zz;q=1.0,en;q=bogus'')))
             = [''en'', ''zz'']"
    by code_simp
  have h: "\<forall>e \<in> set (str_split CHR '','' ''zz;q=1.0,en;q=bogus''). count_list e CHR '';'' = 1"
    unfolding s using c by simp
  have "get_django_preferred_locales (django_request ''zz;q=1.0,en;q=bogus'') =
          Inr (Some (map (\<lambda>e. join_split_locale
                                 (str_strip (takeWhile (\<lambda>c. c \<noteq> CHR '';'') (str_strip e))))
                       (rev (sort_key (\<lambda>e. [tl (dropWhile (\<lambda>c. c \<noteq> CHR '';'') (str_strip e)),
                                               takeWhile (\<lambda>c. c \<noteq> CHR '';'') (str_strip e)])
                                      (str_split CHR '','' ''zz;q=1.0,en;q=bogus'')))))"
    using django_malformed_quality_ranked_as_text
            [of "django_request ''zz;q=1.0,en;q=bogus''"
                "[(''HTTP_ACCEPT_LANGUAGE'', ''zz;q=1.0,en;q=bogus'')]" "''zz;q=1.0,en;q=bogus''", OF _ _ _ h]
    by (simp add: django_request_def)
  then have "get_django_preferred_locales (django_request ''zz;q=1.0,en;q=bogus'')
               = Inr (Some [''en'', ''zz''])"
    unfolding t .
  with s c l show ?thesis by simp
qed

end
